theory Spec2Isabelle
  imports Main
begin

section \<open>Values, SDK objects and effects\<close>

text \<open>
  The two source files are \<^verbatim>\<open>src/context/AuthContext.tsx\<close> (the provider) and
  \<^verbatim>\<open>src/pages/Auth.tsx\<close> (the login view \<open>Auth\<close> and the profile view \<open>Profile\<close>).
  Every function of the provider is an \<^verbatim>\<open>async\<close> closure over the React state
  \<open>session\<close>, \<open>user\<close>, \<open>profile\<close>, \<open>loading\<close>. It is modelled as a function from the
  state at the call and the answers of the SDK calls it awaits to an outcome: the
  effects issued, in order, the state after the call and the value the promise settles
  with (\<open>Inl\<close> a rejection, \<open>Inr\<close> a fulfilment). The setters a function calls one after
  the other without an \<^verbatim>\<open>await\<close> in between are taken as one state change.
\<close>

text \<open>JSON values, as far as the code inspects them; no number is computed with, and
  the numbers are the integers.\<close>

datatype jval =
    JNull
  | JUndefined
  | JBool bool
  | JNum int
  | JStr string
  | JArr "jval list"
  | JObj "(string \<times> jval) list"

text \<open>JavaScript truthiness, used by \<^verbatim>\<open>if (x)\<close>, \<^verbatim>\<open>!x\<close> and \<^verbatim>\<open>a || b\<close>.\<close>

fun truthy :: "jval \<Rightarrow> bool" where
  "truthy JNull = False"
| "truthy JUndefined = False"
| "truthy (JBool b) = b"
| "truthy (JNum n) = (n \<noteq> 0)"
| "truthy (JStr s) = (s \<noteq> [])"
| "truthy (JArr _) = True"
| "truthy (JObj _) = True"

text \<open>
  A thrown value: \<open>Error v\<close> is \<^verbatim>\<open>new Error(v)\<close> built by the code itself,
  \<open>SdkError m\<close> an error object with message \<open>m\<close> that the SDK or the platform
  reports, \<open>TypeError\<close> a property read on \<^verbatim>\<open>null\<close> or \<^verbatim>\<open>undefined\<close>.
\<close>

datatype error = Error jval | SdkError string | TypeError

text \<open>How an awaited promise settles.\<close>

datatype 'a promise = Fulfilled 'a | Rejected error

text \<open>
  \<^verbatim>\<open>Tables<'profiles'>\<close> is declared outside the two files; a row is an object, a
  map from column names to values, and \<^verbatim>\<open>Partial<Profile>\<close> is one with fewer keys.
\<close>

type_synonym Profile = "string \<rightharpoonup> jval"

record User =
  user_id :: string

record Session =
  access_token :: string
  provider_token :: "string option"
  session_user :: "User option"

record fetch_response =
  ok :: bool
  json :: "jval promise"

text \<open>The answer of \<^verbatim>\<open>storage.from(..).download(..)\<close>: a blob, whose \<^verbatim>\<open>text()\<close> is
  a promise again, or an error.\<close>

datatype download_result = DownloadData "string promise" | DownloadError error

datatype event =
    ConsoleLog string
  | ConsoleWarn string
  | ConsoleError string
  | Fetch string string "(string \<times> string) list" jval
  | SignInWithOAuth string string string
  | SignInWithPassword string string
  | SignUp string string "string option option"
  | AuthSignOut
  | AuthGetSession
  | DbSelect string string string string
  | DbUpdate string Profile string string
  | StorageRemove string "string list"
  | StorageDownload string string
  | SetTimeout_fetchProfile string
  | Navigate string
  | ToastSuccess string
  | ToastError string
  | SetLoading bool

record auth_state =
  session :: "Session option"
  user :: "User option"
  profile :: "Profile option"
  loading :: bool

record ('s, 'a) outcome =
  trace :: "event list"
  after :: 's
  result :: "error + 'a"

definition SUPABASE_PROJECT_ID :: string where
  "SUPABASE_PROJECT_ID = ''zgdrcbdrmnhvfzygyecx''"

definition initial_state :: auth_state where
  "initial_state = \<lparr>session = None, user = None, profile = None, loading = True\<rparr>"


text \<open>\<^verbatim>\<open>setSession(null); setUser(null); setProfile(null)\<close>.\<close>

definition clear_auth :: "auth_state \<Rightarrow> auth_state" where
  "clear_auth st = st\<lparr>session := None, user := None, profile := None\<rparr>"

text \<open>\<^verbatim>\<open>setProfile(prev => prev ? { ...prev, ...updates } : null)\<close>.\<close>

definition merge_profile :: "Profile \<Rightarrow> auth_state \<Rightarrow> auth_state" where
  "merge_profile updates st =
     st\<lparr>profile := (case profile st of None \<Rightarrow> None | Some prev \<Rightarrow> Some (prev ++ updates))\<rparr>"

section \<open>The provider: AuthContext.tsx\<close>




definition signInWithGoogle ::
  "auth_state \<Rightarrow> string \<Rightarrow> error option promise \<Rightarrow> (auth_state, unit) outcome" where
  "signInWithGoogle st origin oauth_res =
     (let redirectUrl = origin;
          evs = [ConsoleLog ''Using redirect URL for Google auth:'',
                 SignInWithOAuth ''google'' redirectUrl ''email profile'']
      in case oauth_res of
           Rejected e \<Rightarrow>
             \<lparr>trace = evs @ [ConsoleError ''Error signing in with Google:''], after = st,
              result = Inl e\<rparr>
         | Fulfilled (Some e) \<Rightarrow>
             \<lparr>trace = evs @ [ConsoleError ''Error signing in with Google:'',
                             ConsoleError ''Error signing in with Google:''],
              after = st, result = Inl e\<rparr>
         | Fulfilled None \<Rightarrow> \<lparr>trace = evs, after = st, result = Inr ()\<rparr>)"



definition signOut :: "auth_state \<Rightarrow> error option promise \<Rightarrow> (auth_state, unit) outcome" where
  "signOut st signOut_res =
     (let evs = [ConsoleLog ''Signing out, current session:'', AuthSignOut]
      in case signOut_res of
           Rejected e \<Rightarrow>
             \<lparr>trace = evs @ [ConsoleError ''Error signing out:'', Navigate ''/''],
              after = clear_auth st, result = Inl e\<rparr>
         | Fulfilled (Some e) \<Rightarrow>
             \<lparr>trace = evs @ [ConsoleError ''Error signing out:'',
                             ConsoleError ''Error signing out:'', Navigate ''/''],
              after = clear_auth st, result = Inl e\<rparr>
         | Fulfilled None \<Rightarrow>
             \<lparr>trace = evs @ [Navigate ''/''], after = clear_auth st, result = Inr ()\<rparr>)"

definition updateProfile ::
  "auth_state \<Rightarrow> Profile \<Rightarrow> error option promise \<Rightarrow> (auth_state, unit) outcome" where
  "updateProfile st updates update_res =
     (case user st of
        None \<Rightarrow>
          \<lparr>trace = [ConsoleError ''Error updating profile:''], after = st,
           result = Inl (Error (JStr ''User not authenticated''))\<rparr>
      | Some u \<Rightarrow>
          (let req = DbUpdate ''profiles'' updates ''id'' (user_id u)
           in case update_res of
                Rejected e \<Rightarrow>
                  \<lparr>trace = [req, ConsoleError ''Error updating profile:''], after = st,
                   result = Inl e\<rparr>
              | Fulfilled (Some e) \<Rightarrow>
                  \<lparr>trace = [req, ConsoleError ''Error updating profile:'',
                            ConsoleError ''Error updating profile:''],
                   after = st, result = Inl e\<rparr>
              | Fulfilled None \<Rightarrow>
                  \<lparr>trace = [req], after = merge_profile updates st, result = Inr ()\<rparr>))"

text \<open>\<^verbatim>\<open>!providerToken\<close> holds for \<^verbatim>\<open>null\<close>, \<^verbatim>\<open>undefined\<close> and the empty string.\<close>

definition getGoogleAuthToken ::
  "auth_state \<Rightarrow> (Session option \<times> error option) promise
     \<Rightarrow> (auth_state, string option) outcome" where
  "getGoogleAuthToken st getSession_res =
     (case session st of
        None \<Rightarrow> \<lparr>trace = [], after = st, result = Inr None\<rparr>
      | Some cur \<Rightarrow>
          (case getSession_res of
             Rejected e \<Rightarrow>
               \<lparr>trace = [AuthGetSession, ConsoleError ''Error getting Google auth token:''],
                after = st, result = Inr None\<rparr>
           | Fulfilled (so, err) \<Rightarrow>
               (case err of
                  Some e \<Rightarrow>
                    \<lparr>trace = [AuthGetSession, ConsoleError ''Error getting session:'',
                              ConsoleError ''Error getting Google auth token:''],
                     after = st, result = Inr None\<rparr>
                | None \<Rightarrow>
                    (let providerToken =
                           (case so of None \<Rightarrow> None | Some s \<Rightarrow> provider_token s)
                     in case providerToken of
                          None \<Rightarrow>
                            \<lparr>trace = [AuthGetSession, ConsoleWarn
                               ''No provider token available. User may need to re-authenticate.''],
                             after = st, result = Inr None\<rparr>
                        | Some t \<Rightarrow>
                            (if t = [] then
                               \<lparr>trace = [AuthGetSession, ConsoleWarn
                                  ''No provider token available. User may need to re-authenticate.''],
                                after = st, result = Inr None\<rparr>
                             else
                               \<lparr>trace = [AuthGetSession], after = st,
                                result = Inr (Some t)\<rparr>)))))"

definition deleteAccount_catch ::
  "auth_state \<Rightarrow> event list \<Rightarrow> error \<Rightarrow> (auth_state, unit) outcome" where
  "deleteAccount_catch st evs e =
     \<lparr>trace = evs @ [ConsoleError ''Error deleting account:'',
                     ToastError ''Failed to delete account. Please try again.''],
      after = st, result = Inl e\<rparr>"

text \<open>\<^verbatim>\<open>result.error\<close> on the parsed body: a read on \<^verbatim>\<open>null\<close> or \<^verbatim>\<open>undefined\<close>
  throws, an object gives the member or \<^verbatim>\<open>undefined\<close>, every other value has no
  such member.\<close>

fun error_member :: "jval \<Rightarrow> error + jval" where
  "error_member JNull = Inl TypeError"
| "error_member JUndefined = Inl TypeError"
| "error_member (JObj kvs) =
     Inr (case map_of kvs ''error'' of None \<Rightarrow> JUndefined | Some v \<Rightarrow> v)"
| "error_member _ = Inr JUndefined"

text \<open>The body of the request is \<^verbatim>\<open>JSON.stringify\<close> of the value carried by the
  \<open>Fetch\<close> event.\<close>

definition deleteAccount ::
  "auth_state \<Rightarrow> fetch_response promise \<Rightarrow> error option promise
     \<Rightarrow> (auth_state, unit) outcome" where
  "deleteAccount st fetch_res signOut_res =
     (case user st of
        None \<Rightarrow> deleteAccount_catch st [] (Error (JStr ''User not authenticated''))
      | Some u \<Rightarrow>
          (case session st of
             None \<Rightarrow> deleteAccount_catch st [] (Error (JStr ''User not authenticated''))
           | Some s \<Rightarrow>
               (let token = access_token s;
                    req = Fetch (''https://'' @ SUPABASE_PROJECT_ID
                                   @ ''.supabase.co/functions/v1/delete-user'')
                            ''POST''
                            [(''Content-Type'', ''application/json''),
                             (''Authorization'', ''Bearer '' @ token)]
                            (JObj [(''userId'', JStr (user_id u))])
                in case fetch_res of
                     Rejected e \<Rightarrow> deleteAccount_catch st [req] e
                   | Fulfilled response \<Rightarrow>
                       (case json response of
                          Rejected e \<Rightarrow> deleteAccount_catch st [req] e
                        | Fulfilled res \<Rightarrow>
                            (if \<not> ok response then
                               (case error_member res of
                                  Inl e \<Rightarrow> deleteAccount_catch st [req] e
                                | Inr m \<Rightarrow>
                                    deleteAccount_catch st [req]
                                      (Error (if truthy m then m
                                              else JStr ''Failed to delete account'')))
                             else
                               \<lparr>trace =
                                  [req,
                                   ConsoleLog ''Account deletion successful, clearing session'',
                                   AuthSignOut]
                                  @ (case signOut_res of
                                       Rejected e \<Rightarrow>
                                         [ConsoleLog
                                            ''Expected sign out error after account deletion:'']
                                     | Fulfilled _ \<Rightarrow> [])
                                  @ [Navigate ''/'',
                                     ToastSuccess ''Your account has been successfully deleted''],
                                after = clear_auth st, result = Inr ()\<rparr>)))))"

definition resetUserData_updates :: Profile where
  "resetUserData_updates =
     [''onboarding_completed'' \<mapsto> JBool False,
      ''has_personality_insights'' \<mapsto> JBool False,
      ''preference_chosen'' \<mapsto> JBool False,
      ''personality_tiles'' \<mapsto> JNull]"

definition resetUserData ::
  "auth_state \<Rightarrow> error option promise \<Rightarrow> error option promise
     \<Rightarrow> (auth_state, unit) outcome" where
  "resetUserData st update_res remove_res =
     (case user st of
        None \<Rightarrow>
          \<lparr>trace = [ConsoleError ''Error resetting user data:''], after = st,
           result = Inl (Error (JStr ''User not authenticated''))\<rparr>
      | Some u \<Rightarrow>
          (let updates = resetUserData_updates;
               req = DbUpdate ''profiles'' updates ''id'' (user_id u)
           in case update_res of
                Rejected e \<Rightarrow>
                  \<lparr>trace = [req, ConsoleError ''Error resetting user data:''], after = st,
                   result = Inl e\<rparr>
              | Fulfilled (Some e) \<Rightarrow>
                  \<lparr>trace = [req, ConsoleError ''Error resetting user data:'',
                            ConsoleError ''Error resetting user data:''],
                   after = st, result = Inl e\<rparr>
              | Fulfilled None \<Rightarrow>
                  (let userFolder = ''user_data/'' @ user_id u;
                       rm = StorageRemove ''user_files''
                              [userFolder @ ''/personality_report.txt''];
                       rm_evs =
                         (case remove_res of
                            Rejected e \<Rightarrow>
                              [rm, ConsoleLog
                                 ''Note: No personality report file to delete or error deleting:'']
                          | Fulfilled _ \<Rightarrow> [rm])
                   in \<lparr>trace = [req] @ rm_evs @ [Navigate ''/''],
                       after = merge_profile updates st, result = Inr ()\<rparr>)))"

section \<open>The login view: Auth\<close>

text \<open>The view's only state is \<open>loading\<close>, and the button has \<^verbatim>\<open>disabled={loading}\<close>.\<close>

definition button_disabled :: "bool \<Rightarrow> bool" where
  "button_disabled loading_now = loading_now"

definition handleGoogleSignIn ::
  "auth_state \<Rightarrow> string \<Rightarrow> error option promise \<Rightarrow> (bool, unit) outcome" where
  "handleGoogleSignIn st origin oauth_res =
     (let call = signInWithGoogle st origin oauth_res
      in case result call of
           Inr _ \<Rightarrow>
             \<lparr>trace = [SetLoading True] @ trace call @ [SetLoading False],
              after = False, result = Inr ()\<rparr>
         | Inl e \<Rightarrow>
             \<lparr>trace = [SetLoading True] @ trace call
                       @ [ConsoleError ''Google sign in error:'',
                          ToastError ''Failed to sign in with Google. Please try again.'',
                          SetLoading False],
              after = False, result = Inr ()\<rparr>)"

section \<open>The profile view: Profile\<close>

record profile_page =
  personalityReport :: "string option"
  personalityTiles :: "jval option"
  page_loading :: bool

definition initial_page :: profile_page where
  "initial_page = \<lparr>personalityReport = None, personalityTiles = None, page_loading = True\<rparr>"

text \<open>\<^verbatim>\<open>profile?.personality_tiles\<close>.\<close>

definition personality_tiles :: "Profile option \<Rightarrow> jval" where
  "personality_tiles p =
     (case p of
        None \<Rightarrow> JUndefined
      | Some row \<Rightarrow> (case row ''personality_tiles'' of None \<Rightarrow> JUndefined | Some v \<Rightarrow> v))"

definition fetchPersonalityData ::
  "User \<Rightarrow> Profile option \<Rightarrow> profile_page \<Rightarrow> download_result promise
     \<Rightarrow> (profile_page, unit) outcome" where
  "fetchPersonalityData u prof pg download_res =
     (let pg1 = pg\<lparr>page_loading := True\<rparr>;
          pg2 = (if truthy (personality_tiles prof)
                 then pg1\<lparr>personalityTiles := Some (personality_tiles prof)\<rparr> else pg1);
          userFolder = ''user_data/'' @ user_id u;
          pre = [SetLoading True,
                 StorageDownload ''user_files'' (userFolder @ ''/personality_report.txt'')]
      in case download_res of
           Rejected e \<Rightarrow>
             \<lparr>trace = pre @ [ConsoleError ''Error fetching personality data:'',
                             SetLoading False],
              after = pg2\<lparr>page_loading := False\<rparr>, result = Inr ()\<rparr>
         | Fulfilled (DownloadError e) \<Rightarrow>
             \<lparr>trace = pre @ [ConsoleError ''Error downloading personality report:'',
                             SetLoading False],
              after = pg2\<lparr>page_loading := False\<rparr>, result = Inr ()\<rparr>
         | Fulfilled (DownloadData text_res) \<Rightarrow>
             (case text_res of
                Rejected e \<Rightarrow>
                  \<lparr>trace = pre @ [ConsoleError ''Error fetching personality data:'',
                                  SetLoading False],
                   after = pg2\<lparr>page_loading := False\<rparr>, result = Inr ()\<rparr>
              | Fulfilled reportText \<Rightarrow>
                  \<lparr>trace = pre @ [SetLoading False],
                   after = pg2\<lparr>personalityReport := Some reportText, page_loading := False\<rparr>,
                   result = Inr ()\<rparr>))"

text \<open>The effect of the view, run when \<open>user\<close>, \<open>profile\<close> or \<open>navigate\<close> change.\<close>

definition Profile_effect ::
  "auth_state \<Rightarrow> profile_page \<Rightarrow> download_result promise \<Rightarrow> (profile_page, unit) outcome" where
  "Profile_effect st pg download_res =
     (case user st of
        None \<Rightarrow> \<lparr>trace = [Navigate ''/auth''], after = pg, result = Inr ()\<rparr>
      | Some u \<Rightarrow> fetchPersonalityData u (profile st) pg download_res)"

definition handleLogout ::
  "auth_state \<Rightarrow> error option promise \<Rightarrow> (auth_state, unit) outcome" where
  "handleLogout st signOut_res =
     (let call = signOut st signOut_res
      in case result call of
           Inr _ \<Rightarrow>
             \<lparr>trace = trace call @ [ToastSuccess ''Logged out successfully''],
              after = after call, result = Inr ()\<rparr>
         | Inl e \<Rightarrow>
             \<lparr>trace = trace call @ [ConsoleError ''Error logging out:'',
                                    ToastError ''Failed to log out. Please try again.''],
              after = after call, result = Inr ()\<rparr>)"

text \<open>
  What the view shows. The tiles held are cast to \<^verbatim>\<open>PersonalityTiles\<close> without a
  check, and the JSX reads six list fields of them, in this order, and calls
  \<^verbatim>\<open>.map\<close> on each; beside each list it shows the field named \<^verbatim>\<open><key> Reason\<close>.
\<close>

definition tile_keys :: "string list" where
  "tile_keys =
     [''Lifestyle Vibes'', ''Food & Drink Favorites'', ''Go-to Activities'',
      ''Favorite Neighborhoods or Place Types'', ''Travel & Exploration'', ''Other'']"

text \<open>\<^verbatim>\<open>personalityTiles[k]\<close> on a truthy value: the member of an object, and
  \<^verbatim>\<open>undefined\<close> for a missing member or a value that is no object.\<close>

fun tile_member :: "jval \<Rightarrow> string \<Rightarrow> jval" where
  "tile_member (JObj kvs) k = (case map_of kvs k of None \<Rightarrow> JUndefined | Some v \<Rightarrow> v)"
| "tile_member _ k = JUndefined"

text \<open>Only an array has \<^verbatim>\<open>.map\<close>; on every other value the call throws a
  \<^verbatim>\<open>TypeError\<close>.\<close>

fun is_array :: "jval \<Rightarrow> bool" where
  "is_array (JArr _) = True"
| "is_array _ = False"

fun items_of :: "jval \<Rightarrow> jval list" where
  "items_of (JArr xs) = xs"
| "items_of _ = []"

text \<open>What React accepts as a child: text and numbers are shown, \<^verbatim>\<open>null\<close>,
  \<^verbatim>\<open>undefined\<close> and booleans show nothing, an array shows its elements, and an
  object is refused with an error. The components \<^verbatim>\<open>Card\<close> and \<^verbatim>\<open>Badge\<close> are
  declared outside the two files and are taken to show their children.\<close>

fun react_child :: "jval \<Rightarrow> bool" where
  "react_child (JObj _) = False"
| "react_child (JArr xs) = list_all react_child xs"
| "react_child _ = True"

text \<open>Why a render throws: \<^verbatim>\<open>.map\<close> called on the field named, which is no array,
  or an object given where a child is expected.\<close>

datatype render_failure = MapTypeError string | ObjectAsChild

text \<open>A card: the children of its badges and the child shown as its reason.\<close>

type_synonym tile_card = "jval list \<times> jval"

text \<open>The six cards of a truthy tiles value. The elements are created first, so a
  failing \<^verbatim>\<open>.map\<close>, at the first of the six fields that is no array, comes before
  any refusal of a child.\<close>

definition tile_cards :: "jval \<Rightarrow> render_failure + tile_card list" where
  "tile_cards t =
     (case filter (\<lambda>k. \<not> is_array (tile_member t k)) tile_keys of
        k # _ \<Rightarrow> Inl (MapTypeError k)
      | [] \<Rightarrow>
          (let cards = map (\<lambda>k. (items_of (tile_member t k), tile_member t (k @ '' Reason'')))
                         tile_keys
           in if list_all (\<lambda>c. list_all react_child (fst c) \<and> react_child (snd c)) cards
              then Inr cards else Inl ObjectAsChild))"

text \<open>The view: the spinner while loading; otherwise the six cards of the tiles (or
  the card "No Insights Available", \<open>None\<close>, when there are none) and, when the report
  is a non-empty string, the report card. A render that throws shows nothing.\<close>

datatype view = LoadingView | ProfileView "tile_card list option" "string option"

definition render :: "profile_page \<Rightarrow> render_failure + view" where
  "render pg =
     (if page_loading pg then Inr LoadingView
      else
        (let report = (case personalityReport pg of
                         None \<Rightarrow> None
                       | Some r \<Rightarrow> if r = [] then None else Some r)
         in case personalityTiles pg of
              None \<Rightarrow> Inr (ProfileView None report)
            | Some t \<Rightarrow>
                if \<not> truthy t then Inr (ProfileView None report)
                else (case tile_cards t of
                        Inl f \<Rightarrow> Inl f
                      | Inr cards \<Rightarrow> Inr (ProfileView (Some cards) report))))"

text \<open>The shape the interface \<^verbatim>\<open>PersonalityTiles\<close> declares: the six fields are
  arrays of strings and the six reasons are strings.\<close>

fun is_string :: "jval \<Rightarrow> bool" where
  "is_string (JStr _) = True"
| "is_string _ = False"

definition has_tile_shape :: "jval \<Rightarrow> bool" where
  "has_tile_shape t =
     list_all (\<lambda>k. is_array (tile_member t k)
                   \<and> list_all is_string (items_of (tile_member t k))
                   \<and> is_string (tile_member t (k @ '' Reason''))) tile_keys"

section \<open>Reachable states of the provider\<close>


text \<open>The value of the view's \<open>loading\<close> at each effect of a trace, replaying the
  \<open>SetLoading\<close> events from a starting value.\<close>

fun loading_during :: "bool \<Rightarrow> event list \<Rightarrow> (bool \<times> event) list" where
  "loading_during l [] = []"
| "loading_during l (SetLoading b # es) = loading_during b es"
| "loading_during l (e # es) = (l, e) # loading_during l es"

section \<open>Classifying effects\<close>

fun is_Fetch :: "event \<Rightarrow> bool" where
  "is_Fetch (Fetch _ _ _ _) = True"
| "is_Fetch _ = False"

fun is_DbUpdate :: "event \<Rightarrow> bool" where
  "is_DbUpdate (DbUpdate _ _ _ _) = True"
| "is_DbUpdate _ = False"

fun is_storage :: "event \<Rightarrow> bool" where
  "is_storage (StorageRemove _ _) = True"
| "is_storage (StorageDownload _ _) = True"
| "is_storage _ = False"

fun is_toast :: "event \<Rightarrow> bool" where
  "is_toast (ToastSuccess _) = True"
| "is_toast (ToastError _) = True"
| "is_toast _ = False"

text \<open>Every request that leaves the browser: the remote function, the auth SDK, the
  database and the storage.\<close>

fun is_backend_call :: "event \<Rightarrow> bool" where
  "is_backend_call (Fetch _ _ _ _) = True"
| "is_backend_call (SignInWithOAuth _ _ _) = True"
| "is_backend_call (SignInWithPassword _ _) = True"
| "is_backend_call (SignUp _ _ _) = True"
| "is_backend_call AuthSignOut = True"
| "is_backend_call AuthGetSession = True"
| "is_backend_call (DbSelect _ _ _ _) = True"
| "is_backend_call (DbUpdate _ _ _ _) = True"
| "is_backend_call (StorageRemove _ _) = True"
| "is_backend_call (StorageDownload _ _) = True"
| "is_backend_call _ = False"



section \<open>A concrete signed-in provider\<close>

definition alice :: User where
  "alice = \<lparr>user_id = ''u1''\<rparr>"

definition alice_session :: Session where
  "alice_session =
     \<lparr>access_token = ''tok'', provider_token = Some ''gtok'', session_user = Some alice\<rparr>"

definition alice_tiles :: jval where
  "alice_tiles =
     JObj [(''Lifestyle Vibes'', JArr [JStr ''Foodie'']),
           (''Lifestyle Vibes Reason'', JStr ''Many restaurant visits''),
           (''Food & Drink Favorites'', JArr [JStr ''Ramen'']),
           (''Food & Drink Favorites Reason'', JStr ''Weekly ramen''),
           (''Go-to Activities'', JArr [JStr ''Hiking'']),
           (''Go-to Activities Reason'', JStr ''Weekend trails''),
           (''Favorite Neighborhoods or Place Types'', JArr [JStr ''Parks'']),
           (''Favorite Neighborhoods or Place Types Reason'', JStr ''Green spaces''),
           (''Travel & Exploration'', JArr [JStr ''City breaks'']),
           (''Travel & Exploration Reason'', JStr ''Short trips''),
           (''Other'', JArr []),
           (''Other Reason'', JStr ''None'')]"

definition alice_cards :: "tile_card list" where
  "alice_cards =
     [([JStr ''Foodie''], JStr ''Many restaurant visits''),
      ([JStr ''Ramen''], JStr ''Weekly ramen''),
      ([JStr ''Hiking''], JStr ''Weekend trails''),
      ([JStr ''Parks''], JStr ''Green spaces''),
      ([JStr ''City breaks''], JStr ''Short trips''),
      ([], JStr ''None'')]"

definition alice_row :: Profile where
  "alice_row =
     [''id'' \<mapsto> JStr ''u1'',
      ''full_name'' \<mapsto> JStr ''Alice'',
      ''onboarding_completed'' \<mapsto> JBool True,
      ''has_personality_insights'' \<mapsto> JBool True,
      ''preference_chosen'' \<mapsto> JBool True,
      ''personality_tiles'' \<mapsto> alice_tiles]"

definition signed_in :: auth_state where
  "signed_in =
     \<lparr>session = Some alice_session, user = Some alice, profile = Some alice_row,
      loading = False\<rparr>"

section \<open>Signing out\<close>

text \<open>
  Claim C8. \<open>signOut\<close> clears the local authentication state whatever the SDK answers:
  session, user and profile are \<open>None\<close> afterwards and the last effect is the
  navigation to \<open>/\<close>. When the SDK reports an error, as a value or by rejecting, the
  promise of \<open>signOut\<close> rejects with that same error, and the state is cleared all the
  same.
\<close>

theorem C8_signOut_clears_state_unconditionally:
  "after (signOut st r) = clear_auth st
   \<and> session (after (signOut st r)) = None
   \<and> user (after (signOut st r)) = None
   \<and> profile (after (signOut st r)) = None
   \<and> last (trace (signOut st r)) = Navigate ''/''
   \<and> result (signOut st r) =
       (case r of Fulfilled None \<Rightarrow> Inr () | Fulfilled (Some e) \<Rightarrow> Inl e | Rejected e \<Rightarrow> Inl e)"
  by (simp add: signOut_def clear_auth_def split: promise.split option.split)

section \<open>The Google provider token\<close>

text \<open>
  Claim C10. \<open>getGoogleAuthToken\<close> never rejects: its promise is always fulfilled, with
  \<open>None\<close> when the provider holds no session, when the SDK call rejects or reports an
  error, and when the refreshed session is absent or carries no provider token. A
  token that is returned is the provider token of the refreshed session. The state is
  left as it is.
\<close>

theorem C10_getGoogleAuthToken_never_rejects:
  "(\<exists>t. result (getGoogleAuthToken st r) = Inr t)
   \<and> (session st = None \<longrightarrow> result (getGoogleAuthToken st r) = Inr None)
   \<and> (\<forall>e. r = Rejected e \<longrightarrow> result (getGoogleAuthToken st r) = Inr None)
   \<and> (\<forall>so e. r = Fulfilled (so, Some e) \<longrightarrow> result (getGoogleAuthToken st r) = Inr None)
   \<and> (r = Fulfilled (None, None) \<longrightarrow> result (getGoogleAuthToken st r) = Inr None)
   \<and> (\<forall>s. r = Fulfilled (Some s, None) \<and> provider_token s = None
          \<longrightarrow> result (getGoogleAuthToken st r) = Inr None)
   \<and> (\<forall>t. result (getGoogleAuthToken st r) = Inr (Some t)
          \<longrightarrow> (\<exists>s. r = Fulfilled (Some s, None) \<and> provider_token s = Some t)
              \<and> session st \<noteq> None)
   \<and> after (getGoogleAuthToken st r) = st"
  by (auto simp: getGoogleAuthToken_def split: promise.split option.split prod.split)

theorem C10_getGoogleAuthToken_witness:
  "result (getGoogleAuthToken signed_in (Rejected (SdkError ''network''))) = Inr None
   \<and> result (getGoogleAuthToken initial_state (Fulfilled (Some alice_session, None)))
       = Inr None"
  using C10_getGoogleAuthToken_never_rejects
          [of signed_in "Rejected (SdkError ''network'')"]
        C10_getGoogleAuthToken_never_rejects
          [of initial_state "Fulfilled (Some alice_session, None)"]
  by (simp add: initial_state_def)

section \<open>Resetting the user's data\<close>

lemma resetUserData_updates_apply:
  "resetUserData_updates k =
     (if k = ''personality_tiles'' then Some JNull
      else if k = ''preference_chosen'' \<or> k = ''has_personality_insights''
              \<or> k = ''onboarding_completed'' then Some (JBool False)
      else None)"
  by (simp add: resetUserData_updates_def)

lemma dom_resetUserData_updates:
  "dom resetUserData_updates =
     {''onboarding_completed'', ''has_personality_insights'', ''preference_chosen'',
      ''personality_tiles''}"
  by (auto simp: resetUserData_updates_def)

lemma resetUserData_failed_update:
  "update_res \<noteq> Fulfilled None \<Longrightarrow>
     (\<exists>e. result (resetUserData st update_res remove_res) = Inl e)
     \<and> after (resetUserData st update_res remove_res) = st
     \<and> filter is_storage (trace (resetUserData st update_res remove_res)) = []
     \<and> Navigate ''/'' \<notin> set (trace (resetUserData st update_res remove_res))"
  by (cases update_res; cases "user st")
     (auto simp: resetUserData_def Let_def split: option.split)

lemma resetUserData_succeeded_update:
  "user st = Some u \<Longrightarrow>
     result (resetUserData st (Fulfilled None) remove_res) = Inr ()
     \<and> after (resetUserData st (Fulfilled None) remove_res)
         = merge_profile resetUserData_updates st
     \<and> filter is_storage (trace (resetUserData st (Fulfilled None) remove_res))
         = [StorageRemove ''user_files'' [''user_data/'' @ user_id u @ ''/personality_report.txt'']]
     \<and> last (trace (resetUserData st (Fulfilled None) remove_res)) = Navigate ''/''"
  by (cases remove_res) (auto simp: resetUserData_def Let_def)

lemma resetUserData_request:
  "user st = Some u \<Longrightarrow>
     filter is_DbUpdate (trace (resetUserData st update_res remove_res))
       = [DbUpdate ''profiles'' resetUserData_updates ''id'' (user_id u)]"
  by (cases update_res; cases remove_res)
     (auto simp: resetUserData_def Let_def split: option.split)

text \<open>
  Claim C9. \<open>resetUserData\<close> is ordered and partly fault-tolerant. When the database
  update fails (the SDK reports an error or rejects), the call rejects, the state is
  the one before the call, and neither a storage request nor the navigation has been
  issued. When a user is signed in and the update succeeds, the call is fulfilled
  whatever the storage removal answers, also when it rejects: the removal is requested
  once, the local profile has the reset fields merged in, and the last effect is the
  navigation to \<open>/\<close>.
\<close>

theorem C9_resetUserData_ordered_fault_tolerant:
  "(update_res \<noteq> Fulfilled None \<longrightarrow>
      (\<exists>e. result (resetUserData st update_res remove_res) = Inl e)
      \<and> after (resetUserData st update_res remove_res) = st
      \<and> filter is_storage (trace (resetUserData st update_res remove_res)) = []
      \<and> Navigate ''/'' \<notin> set (trace (resetUserData st update_res remove_res)))
   \<and> (user st \<noteq> None \<and> update_res = Fulfilled None \<longrightarrow>
        result (resetUserData st update_res remove_res) = Inr ()
        \<and> profile (after (resetUserData st update_res remove_res))
            = (case profile st of
                 None \<Rightarrow> None
               | Some prev \<Rightarrow> Some (prev ++ resetUserData_updates))
        \<and> length (filter is_storage (trace (resetUserData st update_res remove_res))) = 1
        \<and> last (trace (resetUserData st update_res remove_res)) = Navigate ''/'')"
proof (intro conjI impI)
  assume "update_res \<noteq> Fulfilled None"
  from resetUserData_failed_update [OF this, of st remove_res]
  show "\<exists>e. result (resetUserData st update_res remove_res) = Inl e"
    and "after (resetUserData st update_res remove_res) = st"
    and "filter is_storage (trace (resetUserData st update_res remove_res)) = []"
    and "Navigate ''/'' \<notin> set (trace (resetUserData st update_res remove_res))"
    by blast+
next
  assume a: "user st \<noteq> None \<and> update_res = Fulfilled None"
  then obtain u where u: "user st = Some u" by blast
  from a resetUserData_succeeded_update [OF u, of remove_res]
  show "result (resetUserData st update_res remove_res) = Inr ()"
    and "profile (after (resetUserData st update_res remove_res))
            = (case profile st of
                 None \<Rightarrow> None
               | Some prev \<Rightarrow> Some (prev ++ resetUserData_updates))"
    and "length (filter is_storage (trace (resetUserData st update_res remove_res))) = 1"
    and "last (trace (resetUserData st update_res remove_res)) = Navigate ''/''"
    by (simp_all add: merge_profile_def)
qed

theorem C9_resetUserData_witness:
  "result (resetUserData signed_in (Rejected (SdkError ''offline'')) (Fulfilled None))
     = Inl (SdkError ''offline'')
   \<and> after (resetUserData signed_in (Rejected (SdkError ''offline'')) (Fulfilled None))
       = signed_in
   \<and> result (resetUserData signed_in (Fulfilled None) (Rejected (SdkError ''offline'')))
       = Inr ()
   \<and> last (trace (resetUserData signed_in (Fulfilled None) (Rejected (SdkError ''offline''))))
       = Navigate ''/''"
  using C9_resetUserData_ordered_fault_tolerant
          [of "Rejected (SdkError ''offline'')" signed_in "Fulfilled None"]
        C9_resetUserData_ordered_fault_tolerant
          [of "Fulfilled None" signed_in "Rejected (SdkError ''offline'')"]
  by (simp add: signed_in_def resetUserData_def)

text \<open>
  Claim C2, as stated, for every call with a signed-in user: it fails when the database
  update is refused. Then no storage object is removed and the local profile keeps its
  fields: \<open>onboarding_completed\<close> is still true.
\<close>

theorem C2_resetUserData_counterexample:
  "user signed_in = Some alice
   \<and> filter is_storage
       (trace (resetUserData signed_in (Fulfilled (Some (SdkError ''permission denied'')))
                 (Fulfilled None))) = []
   \<and> profile (after (resetUserData signed_in
                       (Fulfilled (Some (SdkError ''permission denied''))) (Fulfilled None)))
       = Some alice_row
   \<and> alice_row ''onboarding_completed'' = Some (JBool True)"
  by (simp add: resetUserData_def signed_in_def alice_row_def)

text \<open>
  Claim C2, amended. For every call of \<open>resetUserData\<close> with a signed-in user, the one
  update sent for the row of \<open>profiles\<close> whose \<open>id\<close> is the user's names exactly the
  four fields \<open>onboarding_completed\<close>, \<open>has_personality_insights\<close>,
  \<open>preference_chosen\<close> (false) and \<open>personality_tiles\<close> (null). When that update
  succeeds, exactly one storage request is issued, the removal of
  \<open>user_data/<user id>/personality_report.txt\<close> from the bucket \<open>user_files\<close>, and a
  local profile that is loaded gets the same four fields reset, every other field of
  it and the rest of the state being left unchanged.
\<close>

theorem C2_resetUserData_resets_four_fields:
  assumes "user st = Some u"
  shows
    "filter is_DbUpdate (trace (resetUserData st update_res remove_res))
       = [DbUpdate ''profiles'' resetUserData_updates ''id'' (user_id u)]
     \<and> dom resetUserData_updates
         = {''onboarding_completed'', ''has_personality_insights'', ''preference_chosen'',
            ''personality_tiles''}
     \<and> resetUserData_updates ''onboarding_completed'' = Some (JBool False)
     \<and> resetUserData_updates ''has_personality_insights'' = Some (JBool False)
     \<and> resetUserData_updates ''preference_chosen'' = Some (JBool False)
     \<and> resetUserData_updates ''personality_tiles'' = Some JNull
     \<and> (update_res = Fulfilled None \<longrightarrow>
          filter is_storage (trace (resetUserData st update_res remove_res))
            = [StorageRemove ''user_files''
                 [''user_data/'' @ user_id u @ ''/personality_report.txt'']]
          \<and> profile (after (resetUserData st update_res remove_res))
              = (case profile st of
                   None \<Rightarrow> None
                 | Some prev \<Rightarrow> Some (prev ++ resetUserData_updates))
          \<and> (\<forall>prev. profile st = Some prev \<longrightarrow>
                (\<exists>new. profile (after (resetUserData st update_res remove_res)) = Some new
                   \<and> new ''onboarding_completed'' = Some (JBool False)
                   \<and> new ''has_personality_insights'' = Some (JBool False)
                   \<and> new ''preference_chosen'' = Some (JBool False)
                   \<and> new ''personality_tiles'' = Some JNull
                   \<and> (\<forall>k. k \<notin> dom resetUserData_updates \<longrightarrow> new k = prev k)))
          \<and> session (after (resetUserData st update_res remove_res)) = session st
          \<and> user (after (resetUserData st update_res remove_res)) = user st
          \<and> loading (after (resetUserData st update_res remove_res)) = loading st)"
proof -
  have upd: "update_res = Fulfilled None \<Longrightarrow>
      after (resetUserData st update_res remove_res) = merge_profile resetUserData_updates st
      \<and> filter is_storage (trace (resetUserData st update_res remove_res))
          = [StorageRemove ''user_files''
               [''user_data/'' @ user_id u @ ''/personality_report.txt'']]"
    using resetUserData_succeeded_update [OF assms, of remove_res] by simp
  have frame: "(prev ++ resetUserData_updates) k = prev k"
    if "k \<notin> dom resetUserData_updates" for prev :: Profile and k
    using that by (simp add: map_add_def domIff split: option.split)
  have vals: "(prev ++ resetUserData_updates) ''onboarding_completed'' = Some (JBool False)"
    "(prev ++ resetUserData_updates) ''has_personality_insights'' = Some (JBool False)"
    "(prev ++ resetUserData_updates) ''preference_chosen'' = Some (JBool False)"
    "(prev ++ resetUserData_updates) ''personality_tiles'' = Some JNull"
    for prev :: Profile
    by (simp_all add: map_add_def resetUserData_updates_apply)
  show ?thesis
    using resetUserData_request [OF assms, of update_res remove_res] upd
      dom_resetUserData_updates frame vals
    by (simp add: resetUserData_updates_apply merge_profile_def)
qed

theorem C2_resetUserData_witness:
  "filter is_storage (trace (resetUserData signed_in (Fulfilled None) (Fulfilled None)))
     = [StorageRemove ''user_files'' [''user_data/u1/personality_report.txt'']]
   \<and> (\<exists>new. profile (after (resetUserData signed_in (Fulfilled None) (Fulfilled None)))
               = Some new
          \<and> new ''onboarding_completed'' = Some (JBool False)
          \<and> new ''personality_tiles'' = Some JNull
          \<and> new ''full_name'' = Some (JStr ''Alice''))"
  using C2_resetUserData_resets_four_fields
          [of signed_in alice "Fulfilled None" "Fulfilled None"]
  by (simp add: signed_in_def alice_def alice_row_def resetUserData_updates_def)

section \<open>Updating the profile\<close>

lemma updateProfile_no_user:
  "user st = None \<Longrightarrow>
     updateProfile st updates update_res =
       \<lparr>trace = [ConsoleError ''Error updating profile:''], after = st,
        result = Inl (Error (JStr ''User not authenticated''))\<rparr>"
  by (simp add: updateProfile_def)

lemma updateProfile_request:
  "user st = Some u \<Longrightarrow>
     filter is_backend_call (trace (updateProfile st updates update_res))
       = [DbUpdate ''profiles'' updates ''id'' (user_id u)]"
  by (cases update_res) (auto simp: updateProfile_def Let_def split: option.split)

lemma updateProfile_succeeded:
  "user st = Some u \<Longrightarrow>
     result (updateProfile st updates (Fulfilled None)) = Inr ()
     \<and> after (updateProfile st updates (Fulfilled None)) = merge_profile updates st"
  by (simp add: updateProfile_def Let_def)

lemma updateProfile_failed:
  "update_res \<noteq> Fulfilled None \<Longrightarrow>
     (\<exists>e. result (updateProfile st updates update_res) = Inl e)
     \<and> after (updateProfile st updates update_res) = st"
  by (cases update_res; cases "user st")
     (auto simp: updateProfile_def Let_def split: option.split)

text \<open>
  Claim C5, as stated, says that with a signed-in user the updates are merged into
  the local profile. It fails when the backend refuses the update: the call rejects
  and the local profile keeps the old name.
\<close>

theorem C5_updateProfile_counterexample:
  "user signed_in = Some alice
   \<and> result (updateProfile signed_in [''full_name'' \<mapsto> JStr ''Bob'']
               (Fulfilled (Some (SdkError ''permission denied''))))
       = Inl (SdkError ''permission denied'')
   \<and> profile (after (updateProfile signed_in [''full_name'' \<mapsto> JStr ''Bob'']
                       (Fulfilled (Some (SdkError ''permission denied'')))))
       = Some alice_row
   \<and> alice_row ''full_name'' = Some (JStr ''Alice'')"
  by (simp add: updateProfile_def signed_in_def alice_row_def)

text \<open>
  Claim C5, amended. For every call of \<open>updateProfile\<close>: with no user it rejects with
  \<open>User not authenticated\<close>, issues no backend call and leaves the state unchanged.
  With a user it issues exactly one backend call, the update of the row of \<open>profiles\<close>
  whose \<open>id\<close> is the user's, with exactly the given updates. When the backend reports
  no error the updates are merged into the local profile: a loaded profile takes the
  value of every field the updates name and keeps every other field. When the
  backend reports an error or the call rejects, \<open>updateProfile\<close> rejects and the state
  is unchanged.
\<close>

theorem C5_updateProfile_guard_and_merge:
  "(user st = None \<longrightarrow>
      result (updateProfile st updates update_res)
        = Inl (Error (JStr ''User not authenticated''))
      \<and> filter is_backend_call (trace (updateProfile st updates update_res)) = []
      \<and> after (updateProfile st updates update_res) = st)
   \<and> (\<forall>u. user st = Some u \<longrightarrow>
        filter is_backend_call (trace (updateProfile st updates update_res))
          = [DbUpdate ''profiles'' updates ''id'' (user_id u)]
        \<and> (update_res = Fulfilled None \<longrightarrow>
             result (updateProfile st updates update_res) = Inr ()
             \<and> profile (after (updateProfile st updates update_res))
                 = (case profile st of
                      None \<Rightarrow> None
                    | Some prev \<Rightarrow> Some (prev ++ updates))
             \<and> (\<forall>prev. profile st = Some prev \<longrightarrow>
                   (\<exists>new. profile (after (updateProfile st updates update_res)) = Some new
                      \<and> (\<forall>k. k \<in> dom updates \<longrightarrow> new k = updates k)
                      \<and> (\<forall>k. k \<notin> dom updates \<longrightarrow> new k = prev k)))
             \<and> session (after (updateProfile st updates update_res)) = session st
             \<and> user (after (updateProfile st updates update_res)) = user st
             \<and> loading (after (updateProfile st updates update_res)) = loading st)
        \<and> (update_res \<noteq> Fulfilled None \<longrightarrow>
             (\<exists>e. result (updateProfile st updates update_res) = Inl e)
             \<and> after (updateProfile st updates update_res) = st))"
proof -
  have merged: "(prev ++ updates) k = updates k" if "k \<in> dom updates"
    for prev :: Profile and k
    using that by (auto simp: map_add_def split: option.split)
  have frame: "(prev ++ updates) k = prev k" if "k \<notin> dom updates"
    for prev :: Profile and k
    using that by (simp add: map_add_def domIff split: option.split)
  show ?thesis
  proof (intro conjI allI impI)
    assume "user st = None"
    from updateProfile_no_user [OF this, of updates update_res]
    show "result (updateProfile st updates update_res)
            = Inl (Error (JStr ''User not authenticated''))"
      and "filter is_backend_call (trace (updateProfile st updates update_res)) = []"
      and "after (updateProfile st updates update_res) = st"
      by simp_all
  next
    fix u assume u: "user st = Some u"
    show "filter is_backend_call (trace (updateProfile st updates update_res))
            = [DbUpdate ''profiles'' updates ''id'' (user_id u)]"
      by (rule updateProfile_request [OF u])
    {
      assume ok: "update_res = Fulfilled None"
      from updateProfile_succeeded [OF u, of updates] ok
      have r: "result (updateProfile st updates update_res) = Inr ()"
        and a: "after (updateProfile st updates update_res) = merge_profile updates st"
        by simp_all
      show "result (updateProfile st updates update_res) = Inr ()" by (rule r)
      show "profile (after (updateProfile st updates update_res))
              = (case profile st of None \<Rightarrow> None | Some prev \<Rightarrow> Some (prev ++ updates))"
        and "session (after (updateProfile st updates update_res)) = session st"
        and "user (after (updateProfile st updates update_res)) = user st"
        and "loading (after (updateProfile st updates update_res)) = loading st"
        by (simp_all add: a merge_profile_def)
      {
        fix prev assume "profile st = Some prev"
        then show "\<exists>new. profile (after (updateProfile st updates update_res)) = Some new
                      \<and> (\<forall>k. k \<in> dom updates \<longrightarrow> new k = updates k)
                      \<and> (\<forall>k. k \<notin> dom updates \<longrightarrow> new k = prev k)"
          using merged frame by (simp add: a merge_profile_def)
      }
    }
    {
      assume "update_res \<noteq> Fulfilled None"
      from updateProfile_failed [OF this, of st updates]
      show "\<exists>e. result (updateProfile st updates update_res) = Inl e"
        and "after (updateProfile st updates update_res) = st"
        by blast+
    }
  qed
qed

theorem C5_updateProfile_witness:
  "result (updateProfile initial_state [''full_name'' \<mapsto> JStr ''Bob''] (Fulfilled None))
     = Inl (Error (JStr ''User not authenticated''))
   \<and> filter is_backend_call
       (trace (updateProfile signed_in [''full_name'' \<mapsto> JStr ''Bob''] (Fulfilled None)))
       = [DbUpdate ''profiles'' [''full_name'' \<mapsto> JStr ''Bob''] ''id'' ''u1'']
   \<and> (\<exists>new. profile (after (updateProfile signed_in [''full_name'' \<mapsto> JStr ''Bob'']
                               (Fulfilled None))) = Some new
          \<and> new ''full_name'' = Some (JStr ''Bob'')
          \<and> new ''id'' = Some (JStr ''u1''))"
  using C5_updateProfile_guard_and_merge
          [of initial_state "[''full_name'' \<mapsto> JStr ''Bob'']" "Fulfilled None"]
        C5_updateProfile_guard_and_merge
          [of signed_in "[''full_name'' \<mapsto> JStr ''Bob'']" "Fulfilled None"]
  by (simp add: initial_state_def signed_in_def alice_def alice_row_def)

section \<open>Deleting the account\<close>

lemma deleteAccount_request:
  "user st = Some u \<Longrightarrow> session st = Some s \<Longrightarrow>
     filter is_Fetch (trace (deleteAccount st fetch_res signOut_res))
       = [Fetch ''https://zgdrcbdrmnhvfzygyecx.supabase.co/functions/v1/delete-user''
            ''POST''
            [(''Content-Type'', ''application/json''),
             (''Authorization'', ''Bearer '' @ access_token s)]
            (JObj [(''userId'', JStr (user_id u))])]"
  by (simp add: deleteAccount_def deleteAccount_catch_def SUPABASE_PROJECT_ID_def Let_def
           split: promise.split sum.split)

lemma deleteAccount_ok:
  "user st = Some u \<Longrightarrow> session st = Some s \<Longrightarrow> fetch_res = Fulfilled resp \<Longrightarrow>
   ok resp \<Longrightarrow> json resp = Fulfilled body \<Longrightarrow>
     after (deleteAccount st fetch_res signOut_res) = clear_auth st
     \<and> result (deleteAccount st fetch_res signOut_res) = Inr ()"
  by (simp add: deleteAccount_def Let_def)

lemma deleteAccount_not_ok:
  "\<not> (\<exists>resp body. fetch_res = Fulfilled resp \<and> ok resp \<and> json resp = Fulfilled body) \<Longrightarrow>
     after (deleteAccount st fetch_res signOut_res) = st
     \<and> (\<exists>e. result (deleteAccount st fetch_res signOut_res) = Inl e)"
  by (auto simp: deleteAccount_def deleteAccount_catch_def Let_def
           split: option.split promise.split sum.split)

text \<open>
  Claim C1, as stated, says that the state is cleared whenever the response of the
  remote call is ok. The code parses the body, \<^verbatim>\<open>await response.json()\<close>, before it
  looks at \<^verbatim>\<open>response.ok\<close>: with an ok response whose body is not JSON the parse
  rejects, \<open>deleteAccount\<close> rejects with that error and session, user and profile stay
  as they were.
\<close>

theorem C1_deleteAccount_counterexample:
  "user signed_in = Some alice
   \<and> session signed_in = Some alice_session
   \<and> ok \<lparr>ok = True, json = Rejected (SdkError ''Unexpected end of JSON input'')\<rparr>
   \<and> after (deleteAccount signed_in
               (Fulfilled \<lparr>ok = True, json = Rejected (SdkError ''Unexpected end of JSON input'')\<rparr>)
               (Fulfilled None))
       = signed_in
   \<and> result (deleteAccount signed_in
               (Fulfilled \<lparr>ok = True, json = Rejected (SdkError ''Unexpected end of JSON input'')\<rparr>)
               (Fulfilled None))
       = Inl (SdkError ''Unexpected end of JSON input'')"
  by (simp add: deleteAccount_def deleteAccount_catch_def signed_in_def Let_def)

text \<open>
  Claim C1, amended. For every call of \<open>deleteAccount\<close> with a user and a session, the
  trace holds exactly one remote function call: a \<open>POST\<close> to the \<open>delete-user\<close>
  function with the header \<open>Authorization: Bearer <access token of the session>\<close> and
  the JSON body \<open>{userId: <user id>}\<close>. When that call is answered, the response is ok
  and its body parses as JSON, then session, user and profile are all \<open>None\<close>
  afterwards and the call is fulfilled.
\<close>

theorem C1_deleteAccount_one_remote_call:
  assumes "user st = Some u" and "session st = Some s"
  shows
    "filter is_Fetch (trace (deleteAccount st fetch_res signOut_res))
       = [Fetch ''https://zgdrcbdrmnhvfzygyecx.supabase.co/functions/v1/delete-user''
            ''POST''
            [(''Content-Type'', ''application/json''),
             (''Authorization'', ''Bearer '' @ access_token s)]
            (JObj [(''userId'', JStr (user_id u))])]
     \<and> (\<forall>resp body. fetch_res = Fulfilled resp \<and> ok resp \<and> json resp = Fulfilled body \<longrightarrow>
            session (after (deleteAccount st fetch_res signOut_res)) = None
            \<and> user (after (deleteAccount st fetch_res signOut_res)) = None
            \<and> profile (after (deleteAccount st fetch_res signOut_res)) = None
            \<and> result (deleteAccount st fetch_res signOut_res) = Inr ())"
proof (intro conjI allI impI)
  show "filter is_Fetch (trace (deleteAccount st fetch_res signOut_res))
       = [Fetch ''https://zgdrcbdrmnhvfzygyecx.supabase.co/functions/v1/delete-user''
            ''POST''
            [(''Content-Type'', ''application/json''),
             (''Authorization'', ''Bearer '' @ access_token s)]
            (JObj [(''userId'', JStr (user_id u))])]"
    by (rule deleteAccount_request [OF assms])
next
  fix resp body
  assume "fetch_res = Fulfilled resp \<and> ok resp \<and> json resp = Fulfilled body"
  then have "after (deleteAccount st fetch_res signOut_res) = clear_auth st
     \<and> result (deleteAccount st fetch_res signOut_res) = Inr ()"
    using deleteAccount_ok [OF assms, of fetch_res resp body signOut_res] by blast
  then show "session (after (deleteAccount st fetch_res signOut_res)) = None"
    and "user (after (deleteAccount st fetch_res signOut_res)) = None"
    and "profile (after (deleteAccount st fetch_res signOut_res)) = None"
    and "result (deleteAccount st fetch_res signOut_res) = Inr ()"
    by (simp_all add: clear_auth_def)
qed

theorem C1_deleteAccount_witness:
  "filter is_Fetch
     (trace (deleteAccount signed_in
               (Fulfilled \<lparr>ok = True, json = Fulfilled (JObj [(''success'', JBool True)])\<rparr>)
               (Rejected (SdkError ''session not found''))))
     = [Fetch ''https://zgdrcbdrmnhvfzygyecx.supabase.co/functions/v1/delete-user''
          ''POST''
          [(''Content-Type'', ''application/json''), (''Authorization'', ''Bearer tok'')]
          (JObj [(''userId'', JStr ''u1'')])]
   \<and> session (after (deleteAccount signed_in
               (Fulfilled \<lparr>ok = True, json = Fulfilled (JObj [(''success'', JBool True)])\<rparr>)
               (Rejected (SdkError ''session not found'')))) = None
   \<and> user (after (deleteAccount signed_in
               (Fulfilled \<lparr>ok = True, json = Fulfilled (JObj [(''success'', JBool True)])\<rparr>)
               (Rejected (SdkError ''session not found'')))) = None
   \<and> profile (after (deleteAccount signed_in
               (Fulfilled \<lparr>ok = True, json = Fulfilled (JObj [(''success'', JBool True)])\<rparr>)
               (Rejected (SdkError ''session not found'')))) = None"
  using C1_deleteAccount_one_remote_call
          [of signed_in alice alice_session
              "Fulfilled \<lparr>ok = True, json = Fulfilled (JObj [(''success'', JBool True)])\<rparr>"
              "Rejected (SdkError ''session not found'')"]
  by (simp add: signed_in_def alice_def alice_session_def)

section \<open>The handlers of the two views\<close>

lemma signInWithGoogle_call:
  "filter is_backend_call (trace (signInWithGoogle st origin r))
     = [SignInWithOAuth ''google'' origin ''email profile'']"
  by (simp add: signInWithGoogle_def Let_def split: promise.split option.split)

lemma signInWithGoogle_throws_iff:
  "(\<exists>e. result (signInWithGoogle st origin r) = Inl e) = (r \<noteq> Fulfilled None)"
  by (cases r) (auto simp: signInWithGoogle_def Let_def split: option.split)

lemma signInWithGoogle_no_SetLoading:
  "loading_during l (trace (signInWithGoogle st origin r))
     = map (Pair l) (trace (signInWithGoogle st origin r))"
  by (simp add: signInWithGoogle_def Let_def split: promise.split option.split)

lemma handleGoogleSignIn_unfold:
  "handleGoogleSignIn st origin r =
     \<lparr>trace = [SetLoading True] @ trace (signInWithGoogle st origin r)
               @ (if r = Fulfilled None then []
                  else [ConsoleError ''Google sign in error:'',
                        ToastError ''Failed to sign in with Google. Please try again.''])
               @ [SetLoading False],
      after = False, result = Inr ()\<rparr>"
  by (cases r)
     (auto simp: handleGoogleSignIn_def signInWithGoogle_def Let_def split: option.split)

lemma loading_during_append_plain:
  "loading_during l xs = map (Pair l) xs \<Longrightarrow>
     loading_during l (xs @ ys) = map (Pair l) xs @ loading_during l ys"
proof (induction l xs rule: loading_during.induct)
  case (2 l b es)
  then have "length (loading_during b es) = Suc (length es)"
    by simp
  moreover have "length (loading_during c zs) \<le> length zs" for c zs
    by (induction c zs rule: loading_during.induct) auto
  ultimately show ?case
    by (metis Suc_n_not_le_n)
qed simp_all

text \<open>
  Claim C7. \<open>signInWithGoogle\<close> issues exactly one backend call, the SDK's
  \<open>signInWithOAuth\<close> with provider \<open>google\<close>, the window origin as redirect URL and
  the scopes \<open>email profile\<close>, and it rejects exactly when the SDK reports an error
  (as a value or by rejecting). The handler of the button sets \<open>loading\<close> first, so
  that every effect it issues afterwards, the OAuth call among them, happens while the
  button is disabled, whatever \<open>loading\<close> was before; it sets \<open>loading\<close> to false last,
  on every outcome, and it never rejects.
\<close>

theorem C7_google_sign_in_calls_oauth:
  "filter is_backend_call (trace (signInWithGoogle st origin r))
     = [SignInWithOAuth ''google'' origin ''email profile'']
   \<and> (\<exists>e. result (signInWithGoogle st origin r) = Inl e) = (r \<noteq> Fulfilled None)
   \<and> filter is_backend_call (trace (handleGoogleSignIn st origin r))
       = [SignInWithOAuth ''google'' origin ''email profile'']
   \<and> hd (trace (handleGoogleSignIn st origin r)) = SetLoading True
   \<and> list_all (\<lambda>le. button_disabled (fst le))
       (loading_during l0 (trace (handleGoogleSignIn st origin r)))
   \<and> (True, SignInWithOAuth ''google'' origin ''email profile'')
       \<in> set (loading_during l0 (trace (handleGoogleSignIn st origin r)))
   \<and> last (trace (handleGoogleSignIn st origin r)) = SetLoading False
   \<and> after (handleGoogleSignIn st origin r) = False
   \<and> result (handleGoogleSignIn st origin r) = Inr ()"
proof -
  let ?t = "trace (signInWithGoogle st origin r)"
  have calls: "filter is_backend_call ?t = [SignInWithOAuth ''google'' origin ''email profile'']"
    by (rule signInWithGoogle_call)
  have mem: "SignInWithOAuth ''google'' origin ''email profile'' \<in> set ?t"
    by (simp add: signInWithGoogle_def Let_def split: promise.split option.split)
  have during: "loading_during l0 (trace (handleGoogleSignIn st origin r))
      = map (Pair True) ?t
        @ (if r = Fulfilled None then []
           else [(True, ConsoleError ''Google sign in error:''),
                 (True, ToastError ''Failed to sign in with Google. Please try again.'')])"
    using loading_during_append_plain [OF signInWithGoogle_no_SetLoading, of True st origin r]
    by (simp add: handleGoogleSignIn_unfold)
  have disabled: "list_all (\<lambda>le. button_disabled (fst le))
       (loading_during l0 (trace (handleGoogleSignIn st origin r)))"
    unfolding during by (simp add: button_disabled_def list_all_iff)
  have issued: "(True, SignInWithOAuth ''google'' origin ''email profile'')
       \<in> set (loading_during l0 (trace (handleGoogleSignIn st origin r)))"
    unfolding during using mem by (simp add: image_iff)
  have rest: "filter is_backend_call (trace (handleGoogleSignIn st origin r))
       = [SignInWithOAuth ''google'' origin ''email profile'']
     \<and> hd (trace (handleGoogleSignIn st origin r)) = SetLoading True
     \<and> last (trace (handleGoogleSignIn st origin r)) = SetLoading False
     \<and> after (handleGoogleSignIn st origin r) = False
     \<and> result (handleGoogleSignIn st origin r) = Inr ()"
    using calls by (simp add: handleGoogleSignIn_unfold)
  show ?thesis
    using calls signInWithGoogle_throws_iff [of st origin r] disabled issued rest
    by blast
qed

theorem C7_google_sign_in_witness:
  "result (signInWithGoogle initial_state ''https://cityscout.example''
             (Fulfilled (Some (SdkError ''popup closed'')))) = Inl (SdkError ''popup closed'')
   \<and> trace (handleGoogleSignIn initial_state ''https://cityscout.example''
              (Fulfilled (Some (SdkError ''popup closed''))))
       = [SetLoading True,
          ConsoleLog ''Using redirect URL for Google auth:'',
          SignInWithOAuth ''google'' ''https://cityscout.example'' ''email profile'',
          ConsoleError ''Error signing in with Google:'',
          ConsoleError ''Error signing in with Google:'',
          ConsoleError ''Google sign in error:'',
          ToastError ''Failed to sign in with Google. Please try again.'',
          SetLoading False]
   \<and> after (handleGoogleSignIn initial_state ''https://cityscout.example''
              (Fulfilled (Some (SdkError ''popup closed'')))) = False"
  using C7_google_sign_in_calls_oauth
          [of initial_state "''https://cityscout.example''"
              "Fulfilled (Some (SdkError ''popup closed''))" False]
  by (simp add: handleGoogleSignIn_unfold signInWithGoogle_def)

section \<open>Rejections and toasts\<close>

lemma handleLogout_unfold:
  "handleLogout st r =
     \<lparr>trace = trace (signOut st r)
               @ (if r = Fulfilled None then [ToastSuccess ''Logged out successfully'']
                  else [ConsoleError ''Error logging out:'',
                        ToastError ''Failed to log out. Please try again.'']),
      after = clear_auth st, result = Inr ()\<rparr>"
  by (cases r) (auto simp: handleLogout_def signOut_def Let_def split: option.split)

lemma signOut_throws_iff:
  "(\<exists>e. result (signOut st r) = Inl e) = (r \<noteq> Fulfilled None)"
  by (cases r) (auto simp: signOut_def Let_def split: option.split)

section \<open>What the profile view fetches and shows\<close>

lemma fetchPersonalityData_trace:
  "trace (fetchPersonalityData u prof pg d) =
     [SetLoading True,
      StorageDownload ''user_files'' (''user_data/'' @ user_id u @ ''/personality_report.txt'')]
     @ (case d of
          Rejected e \<Rightarrow> [ConsoleError ''Error fetching personality data:'']
        | Fulfilled (DownloadError e) \<Rightarrow> [ConsoleError ''Error downloading personality report:'']
        | Fulfilled (DownloadData (Rejected e)) \<Rightarrow>
            [ConsoleError ''Error fetching personality data:'']
        | Fulfilled (DownloadData (Fulfilled t)) \<Rightarrow> [])
     @ [SetLoading False]"
  by (simp add: fetchPersonalityData_def Let_def
           split: promise.split download_result.split)

lemma fetchPersonalityData_result:
  "result (fetchPersonalityData u prof pg d) = Inr ()"
  by (simp add: fetchPersonalityData_def Let_def
           split: promise.split download_result.split)

lemma fetchPersonalityData_after:
  "after (fetchPersonalityData u prof pg d) =
     pg\<lparr>personalityTiles :=
          (if truthy (personality_tiles prof) then Some (personality_tiles prof)
           else personalityTiles pg),
        personalityReport :=
          (case d of
             Fulfilled (DownloadData (Fulfilled t)) \<Rightarrow> Some t
           | _ \<Rightarrow> personalityReport pg),
        page_loading := False\<rparr>"
  by (simp add: fetchPersonalityData_def Let_def
           split: promise.split download_result.split)

text \<open>
  Claim C6, as stated, includes the download of the personality report among the
  failures answered with a toast. The profile view only logs that failure (the source
  says: not showing the error to the user as it is not critical): neither an error
  reported by the storage nor a rejected download produces a toast.
\<close>

theorem C6_rejections_counterexample:
  "filter is_toast
     (trace (fetchPersonalityData alice (Some alice_row) initial_page
               (Fulfilled (DownloadError (SdkError ''Object not found''))))) = []
   \<and> filter is_toast
       (trace (fetchPersonalityData alice (Some alice_row) initial_page
                 (Rejected (SdkError ''Failed to fetch'')))) = []"
  by (simp add: fetchPersonalityData_trace)

text \<open>
  Claim C6, amended. Every rejection of \<open>signInWithGoogle\<close> in the sign-in handler of
  the login view, and every rejection of \<open>signOut\<close> in the logout handler of the
  profile view, is answered with exactly one toast, an error toast, and is not
  propagated: the handler is fulfilled. A failure of the personality report download
  in the profile view is not propagated either, but it is answered with a console
  message only and never with a toast.
\<close>

theorem C6_rejections_toasted_in_handlers:
  "((\<exists>e. result (signInWithGoogle st origin r) = Inl e) \<longrightarrow>
      filter is_toast (trace (handleGoogleSignIn st origin r))
        = [ToastError ''Failed to sign in with Google. Please try again.''])
   \<and> result (handleGoogleSignIn st origin r) = Inr ()
   \<and> ((\<exists>e. result (signOut st r') = Inl e) \<longrightarrow>
        filter is_toast (trace (handleLogout st r'))
          = [ToastError ''Failed to log out. Please try again.''])
   \<and> result (handleLogout st r') = Inr ()
   \<and> filter is_toast (trace (fetchPersonalityData u prof pg d)) = []
   \<and> ((\<forall>t. d \<noteq> Fulfilled (DownloadData (Fulfilled t))) \<longrightarrow>
        (\<exists>m. filter (\<lambda>e. \<not> is_backend_call e \<and> e \<noteq> SetLoading True \<and> e \<noteq> SetLoading False)
               (trace (fetchPersonalityData u prof pg d)) = [ConsoleError m]))
   \<and> result (fetchPersonalityData u prof pg d) = Inr ()"
proof -
  have google: "(\<exists>e. result (signInWithGoogle st origin r) = Inl e) \<longrightarrow>
      filter is_toast (trace (handleGoogleSignIn st origin r))
        = [ToastError ''Failed to sign in with Google. Please try again.'']"
    unfolding signInWithGoogle_throws_iff
    by (simp add: handleGoogleSignIn_unfold signInWithGoogle_def Let_def
             split: promise.split option.split)
  have logout: "(\<exists>e. result (signOut st r') = Inl e) \<longrightarrow>
        filter is_toast (trace (handleLogout st r'))
          = [ToastError ''Failed to log out. Please try again.'']"
    unfolding signOut_throws_iff
    by (simp add: handleLogout_unfold signOut_def Let_def split: promise.split option.split)
  have quiet: "filter is_toast (trace (fetchPersonalityData u prof pg d)) = []"
    by (simp add: fetchPersonalityData_trace split: promise.split download_result.split)
  have logged: "(\<forall>t. d \<noteq> Fulfilled (DownloadData (Fulfilled t))) \<longrightarrow>
        (\<exists>m. filter (\<lambda>e. \<not> is_backend_call e \<and> e \<noteq> SetLoading True \<and> e \<noteq> SetLoading False)
               (trace (fetchPersonalityData u prof pg d)) = [ConsoleError m])"
    by (simp add: fetchPersonalityData_trace split: promise.split download_result.split)
  show ?thesis
    using google logout quiet logged
    by (simp add: handleGoogleSignIn_unfold handleLogout_unfold fetchPersonalityData_result)
qed

theorem C6_rejections_witness:
  "filter is_toast (trace (handleGoogleSignIn signed_in ''https://cityscout.example''
                             (Rejected (SdkError ''offline''))))
     = [ToastError ''Failed to sign in with Google. Please try again.'']
   \<and> filter is_toast (trace (handleLogout signed_in (Fulfilled (Some (SdkError ''offline'')))))
       = [ToastError ''Failed to log out. Please try again.'']
   \<and> filter (\<lambda>e. \<not> is_backend_call e \<and> e \<noteq> SetLoading True \<and> e \<noteq> SetLoading False)
       (trace (fetchPersonalityData alice (Some alice_row) initial_page
                 (Fulfilled (DownloadError (SdkError ''Object not found'')))))
       = [ConsoleError ''Error downloading personality report:'']"
  using C6_rejections_toasted_in_handlers
          [of signed_in "''https://cityscout.example''" "Rejected (SdkError ''offline'')"
              "Fulfilled (Some (SdkError ''offline''))"
              alice "Some alice_row" initial_page
              "Fulfilled (DownloadError (SdkError ''Object not found''))"]
  by (simp add: signInWithGoogle_def signOut_def fetchPersonalityData_trace)

lemma is_string_react_child: "is_string v \<Longrightarrow> react_child v"
  by (cases v) simp_all

lemma tile_cards_shape:
  assumes "has_tile_shape t"
  shows "tile_cards t
           = Inr (map (\<lambda>k. (items_of (tile_member t k), tile_member t (k @ '' Reason'')))
                    tile_keys)"
proof -
  have arr: "filter (\<lambda>k. \<not> is_array (tile_member t k)) tile_keys = []"
    using assms by (auto simp: has_tile_shape_def list_all_iff filter_empty_conv)
  have kids: "list_all (\<lambda>c. list_all react_child (fst c) \<and> react_child (snd c))
                (map (\<lambda>k. (items_of (tile_member t k), tile_member t (k @ '' Reason'')))
                   tile_keys)"
    using assms
    by (auto simp: has_tile_shape_def list_all_iff intro: is_string_react_child)
  show ?thesis
    by (simp add: tile_cards_def arr kids)
qed

lemma tile_cards_no_array:
  assumes "k \<in> set tile_keys" and "\<not> is_array (tile_member t k)"
  shows "\<exists>k'. tile_cards t = Inl (MapTypeError k')"
proof -
  have "filter (\<lambda>k. \<not> is_array (tile_member t k)) tile_keys \<noteq> []"
    using assms by (auto simp: filter_empty_conv)
  then show ?thesis
    by (auto simp: tile_cards_def split: list.split)
qed

lemma tile_cards_object_child:
  assumes "list_all (\<lambda>k. is_array (tile_member t k)) tile_keys"
    and "\<not> list_all (\<lambda>k. list_all react_child (items_of (tile_member t k))
                          \<and> react_child (tile_member t (k @ '' Reason''))) tile_keys"
  shows "tile_cards t = Inl ObjectAsChild"
proof -
  have arr: "filter (\<lambda>k. \<not> is_array (tile_member t k)) tile_keys = []"
    using assms(1) by (auto simp: list_all_iff filter_empty_conv)
  have kids: "\<not> list_all (\<lambda>c. list_all react_child (fst c) \<and> react_child (snd c))
                (map (\<lambda>k. (items_of (tile_member t k), tile_member t (k @ '' Reason'')))
                   tile_keys)"
    using assms(2) by (simp add: list_all_iff)
  show ?thesis
    by (simp add: tile_cards_def arr kids)
qed

lemma render_after_fetch:
  "render (after (fetchPersonalityData u prof pg d)) =
     (let report = (case d of
                      Fulfilled (DownloadData (Fulfilled t)) \<Rightarrow> if t = [] then None else Some t
                    | _ \<Rightarrow> (case personalityReport pg of
                             None \<Rightarrow> None
                           | Some r \<Rightarrow> if r = [] then None else Some r));
          tiles = (if truthy (personality_tiles prof) then Some (personality_tiles prof)
                   else (case personalityTiles pg of
                           None \<Rightarrow> None
                         | Some t \<Rightarrow> if truthy t then Some t else None))
      in case tiles of
           None \<Rightarrow> Inr (ProfileView None report)
         | Some t \<Rightarrow>
             (case tile_cards t of
                Inl f \<Rightarrow> Inl f
              | Inr cards \<Rightarrow> Inr (ProfileView (Some cards) report)))"
  by (simp add: fetchPersonalityData_after render_def Let_def
           split: promise.split download_result.split option.split)

text \<open>
  Claim C3, as stated, has the tile structure fetched from storage. The only storage
  request of the view is the download of the report; with a signed-in user whose
  download fails, nothing comes from storage and the tiles are rendered all the same:
  they are the field \<open>personality_tiles\<close> of the profile held by the provider.
\<close>

theorem C3_profile_view_counterexample:
  "filter is_storage
     (trace (Profile_effect signed_in initial_page
               (Fulfilled (DownloadError (SdkError ''Object not found'')))))
     = [StorageDownload ''user_files'' ''user_data/u1/personality_report.txt'']
   \<and> personalityReport
       (after (Profile_effect signed_in initial_page
                 (Fulfilled (DownloadError (SdkError ''Object not found''))))) = None
   \<and> personalityTiles
       (after (Profile_effect signed_in initial_page
                 (Fulfilled (DownloadError (SdkError ''Object not found''))))) = Some alice_tiles
   \<and> render (after (Profile_effect signed_in initial_page
                       (Fulfilled (DownloadError (SdkError ''Object not found'')))))
       = Inr (ProfileView (Some alice_cards) None)
   \<and> personality_tiles (profile signed_in) = alice_tiles"
  by (simp add: Profile_effect_def signed_in_def fetchPersonalityData_trace
        fetchPersonalityData_after render_def initial_page_def personality_tiles_def
        alice_row_def alice_tiles_def alice_def alice_cards_def tile_cards_def tile_keys_def)

text \<open>
  Claim C3, amended. For every signed-in user the effect of the profile view issues
  exactly one backend call, the download of
  \<open>user_data/<user id>/personality_report.txt\<close> from the bucket \<open>user_files\<close>, and
  keeps the text of a successful download as the report. The tile structure is not
  fetched from storage: it is the field \<open>personality_tiles\<close> of the provider's profile
  when that is truthy, and the tiles held before otherwise. What the view then renders
  is determined by the tiles and the report held. Without tiles it renders the card
  "No Insights Available" and the report, when the text is non-empty. With tiles of
  the declared shape it renders their six cards and the report. With truthy tiles that
  lack an array under one of the six list fields the render throws on \<^verbatim>\<open>.map\<close>, and
  with six arrays but an object among the children it is refused: then neither tiles
  nor report are shown.
\<close>

theorem C3_profile_view_report_from_storage_tiles_from_profile:
  assumes "user st = Some u"
  shows
    "filter is_backend_call (trace (Profile_effect st pg d))
       = [StorageDownload ''user_files''
            (''user_data/'' @ user_id u @ ''/personality_report.txt'')]
     \<and> personalityTiles (after (Profile_effect st pg d))
         = (if truthy (personality_tiles (profile st)) then Some (personality_tiles (profile st))
            else personalityTiles pg)
     \<and> personalityReport (after (Profile_effect st pg d))
         = (case d of
              Fulfilled (DownloadData (Fulfilled t)) \<Rightarrow> Some t
            | _ \<Rightarrow> personalityReport pg)
     \<and> page_loading (after (Profile_effect st pg d)) = False
     \<and> render (after (Profile_effect st pg d))
         = (let report =
                  (case d of
                     Fulfilled (DownloadData (Fulfilled t)) \<Rightarrow> if t = [] then None else Some t
                   | _ \<Rightarrow> (case personalityReport pg of
                            None \<Rightarrow> None
                          | Some r \<Rightarrow> if r = [] then None else Some r));
                tiles =
                  (if truthy (personality_tiles (profile st))
                   then Some (personality_tiles (profile st))
                   else (case personalityTiles pg of
                           None \<Rightarrow> None
                         | Some t \<Rightarrow> if truthy t then Some t else None))
            in case tiles of
                 None \<Rightarrow> Inr (ProfileView None report)
               | Some t \<Rightarrow>
                   (case tile_cards t of
                      Inl f \<Rightarrow> Inl f
                    | Inr cards \<Rightarrow> Inr (ProfileView (Some cards) report)))
     \<and> (\<forall>t. d = Fulfilled (DownloadData (Fulfilled t)) \<and> t \<noteq> []
              \<and> \<not> truthy (personality_tiles (profile st)) \<and> personalityTiles pg = None \<longrightarrow>
           render (after (Profile_effect st pg d)) = Inr (ProfileView None (Some t)))
     \<and> (\<forall>t. d = Fulfilled (DownloadData (Fulfilled t)) \<and> t \<noteq> []
              \<and> truthy (personality_tiles (profile st))
              \<and> has_tile_shape (personality_tiles (profile st)) \<longrightarrow>
           render (after (Profile_effect st pg d))
             = Inr (ProfileView
                      (Some (map (\<lambda>k. (items_of (tile_member (personality_tiles (profile st)) k),
                                       tile_member (personality_tiles (profile st))
                                         (k @ '' Reason'')))
                               tile_keys))
                      (Some t)))
     \<and> (\<forall>k. truthy (personality_tiles (profile st)) \<and> k \<in> set tile_keys
              \<and> \<not> is_array (tile_member (personality_tiles (profile st)) k) \<longrightarrow>
           (\<exists>k'. render (after (Profile_effect st pg d)) = Inl (MapTypeError k')))
     \<and> (truthy (personality_tiles (profile st))
          \<and> list_all (\<lambda>k. is_array (tile_member (personality_tiles (profile st)) k)) tile_keys
          \<and> \<not> list_all
                 (\<lambda>k. list_all react_child
                        (items_of (tile_member (personality_tiles (profile st)) k))
                      \<and> react_child (tile_member (personality_tiles (profile st))
                                        (k @ '' Reason''))) tile_keys \<longrightarrow>
           render (after (Profile_effect st pg d)) = Inl ObjectAsChild)"
proof -
  let ?pt = "personality_tiles (profile st)"
  have eff: "Profile_effect st pg d = fetchPersonalityData u (profile st) pg d"
    using assms by (simp add: Profile_effect_def)
  have calls: "filter is_backend_call (trace (fetchPersonalityData u (profile st) pg d))
       = [StorageDownload ''user_files''
            (''user_data/'' @ user_id u @ ''/personality_report.txt'')]"
    by (simp add: fetchPersonalityData_trace split: promise.split download_result.split)
  have state: "personalityTiles (after (fetchPersonalityData u (profile st) pg d))
         = (if truthy ?pt then Some ?pt else personalityTiles pg)"
    "personalityReport (after (fetchPersonalityData u (profile st) pg d))
         = (case d of
              Fulfilled (DownloadData (Fulfilled t)) \<Rightarrow> Some t
            | _ \<Rightarrow> personalityReport pg)"
    "page_loading (after (fetchPersonalityData u (profile st) pg d)) = False"
    by (simp_all add: fetchPersonalityData_after)
  note shown = render_after_fetch [of u "profile st" pg d]
  have alone: "render (after (fetchPersonalityData u (profile st) pg d))
                 = Inr (ProfileView None (Some t))"
    if "d = Fulfilled (DownloadData (Fulfilled t))" "t \<noteq> []" "\<not> truthy ?pt"
       "personalityTiles pg = None" for t
    using that by (simp add: render_after_fetch)
  have both: "render (after (fetchPersonalityData u (profile st) pg d))
             = Inr (ProfileView
                      (Some (map (\<lambda>k. (items_of (tile_member ?pt k),
                                       tile_member ?pt (k @ '' Reason''))) tile_keys))
                      (Some t))"
    if "d = Fulfilled (DownloadData (Fulfilled t))" "t \<noteq> []" "truthy ?pt" "has_tile_shape ?pt"
    for t
    using that by (simp add: render_after_fetch tile_cards_shape)
  have crash: "\<exists>k'. render (after (fetchPersonalityData u (profile st) pg d))
                       = Inl (MapTypeError k')"
    if "truthy ?pt" "k \<in> set tile_keys" "\<not> is_array (tile_member ?pt k)" for k
  proof -
    from tile_cards_no_array [OF that(2,3)]
    obtain k' where "tile_cards ?pt = Inl (MapTypeError k')" by blast
    with that(1) show ?thesis by (simp add: render_after_fetch)
  qed
  have refused: "render (after (fetchPersonalityData u (profile st) pg d)) = Inl ObjectAsChild"
    if "truthy ?pt" "list_all (\<lambda>k. is_array (tile_member ?pt k)) tile_keys"
       "\<not> list_all (\<lambda>k. list_all react_child (items_of (tile_member ?pt k))
                          \<and> react_child (tile_member ?pt (k @ '' Reason''))) tile_keys"
    using that(1) tile_cards_object_child [OF that(2,3)]
    by (simp add: render_after_fetch)
  show ?thesis
    unfolding eff
    using calls state shown alone both crash refused by blast
qed

theorem C3_profile_view_witness:
  "filter is_backend_call
     (trace (Profile_effect signed_in initial_page
               (Fulfilled (DownloadData (Fulfilled ''You like ramen.'')))))
     = [StorageDownload ''user_files'' ''user_data/u1/personality_report.txt'']
   \<and> render (after (Profile_effect signed_in initial_page
                       (Fulfilled (DownloadData (Fulfilled ''You like ramen.'')))))
       = Inr (ProfileView (Some alice_cards) (Some ''You like ramen.''))
   \<and> render (after (Profile_effect (signed_in\<lparr>profile := None\<rparr>) initial_page
                       (Fulfilled (DownloadData (Fulfilled ''You like ramen.'')))))
       = Inr (ProfileView None (Some ''You like ramen.''))
   \<and> render (after (Profile_effect (signed_in\<lparr>profile := Some [''personality_tiles'' \<mapsto> JObj []]\<rparr>)
                       initial_page
                       (Fulfilled (DownloadData (Fulfilled ''You like ramen.'')))))
       = Inl (MapTypeError ''Lifestyle Vibes'')"
  using C3_profile_view_report_from_storage_tiles_from_profile
          [of signed_in alice initial_page
              "Fulfilled (DownloadData (Fulfilled ''You like ramen.''))"]
        C3_profile_view_report_from_storage_tiles_from_profile
          [of "signed_in\<lparr>profile := None\<rparr>" alice initial_page
              "Fulfilled (DownloadData (Fulfilled ''You like ramen.''))"]
        C3_profile_view_report_from_storage_tiles_from_profile
          [of "signed_in\<lparr>profile := Some [''personality_tiles'' \<mapsto> JObj []]\<rparr>" alice
              initial_page "Fulfilled (DownloadData (Fulfilled ''You like ramen.''))"]
  by (simp add: signed_in_def alice_def personality_tiles_def alice_row_def alice_tiles_def
        alice_cards_def initial_page_def tile_cards_def tile_keys_def has_tile_shape_def)

section \<open>The session and the user stay paired\<close>






















end
